theory Spec2Isabelle
  imports Main
begin

section \<open>Python values and exceptions\<close>

text \<open>
  The stages of the agent exchange untyped dictionaries. A value that comes from the
  language model or from the solver's HTTP response is the result of \<^verbatim>\<open>json.loads\<close>:
  it is modelled by the datatype \<open>json\<close>, a dictionary being the list of its items in
  insertion order. Numbers with a fractional part are not modelled.
\<close>

datatype json =
    JNull
  | JBool bool
  | JInt int
  | JStr string
  | JList "json list"
  | JDict "(string \<times> json) list"

text \<open>
  An exception is modelled by its class and the text \<^verbatim>\<open>str(e)\<close>. The text of an
  exception raised by the source itself is the source's; the text of one raised by the
  interpreter or a library is indicative only.
\<close>

datatype exn =
    ValueError string
  | TypeError string
  | KeyError string
  | AttributeError string
  | IndexError string
  | JSONDecodeError string
  | HTTPError string
  | OtherError string

fun str_exn :: "exn \<Rightarrow> string" where
  "str_exn (ValueError m) = m"
| "str_exn (TypeError m) = m"
| "str_exn (KeyError m) = m"
| "str_exn (AttributeError m) = m"
| "str_exn (IndexError m) = m"
| "str_exn (JSONDecodeError m) = m"
| "str_exn (HTTPError m) = m"
| "str_exn (OtherError m) = m"

text \<open>What a stage returns: the dictionary \<^verbatim>\<open>{"error": msg}\<close>, or its payload.\<close>

datatype 'a stage_result = ErrorDict string | Payload 'a

text \<open>
  Sequencing inside a \<^verbatim>\<open>try\<close> block: the first exception ends the block, otherwise
  the value is handed to the statements that follow.
\<close>

definition and_then :: "exn + 'a \<Rightarrow> ('a \<Rightarrow> exn + 'b) \<Rightarrow> exn + 'b" where
  "and_then m f = (case m of Inl e \<Rightarrow> Inl e | Inr x \<Rightarrow> f x)"

text \<open>Python's truth value of a JSON value, as \<^verbatim>\<open>if x:\<close> tests it.\<close>

fun truthy :: "json \<Rightarrow> bool" where
  "truthy JNull = False"
| "truthy (JBool b) = b"
| "truthy (JInt n) = (n \<noteq> 0)"
| "truthy (JStr s) = (s \<noteq> [])"
| "truthy (JList xs) = (xs \<noteq> [])"
| "truthy (JDict kvs) = (kvs \<noteq> [])"

fun type_name :: "json \<Rightarrow> string" where
  "type_name JNull = ''NoneType''"
| "type_name (JBool b) = ''bool''"
| "type_name (JInt n) = ''int''"
| "type_name (JStr s) = ''str''"
| "type_name (JList xs) = ''list''"
| "type_name (JDict kvs) = ''dict''"

definition py_repr_key :: "string \<Rightarrow> string" where
  "py_repr_key k = [CHR 0x27] @ k @ [CHR 0x27]"

text \<open>\<^verbatim>\<open>x.get(k, d)\<close>: only a dictionary has the method.\<close>

fun py_get :: "json \<Rightarrow> string \<Rightarrow> json \<Rightarrow> exn + json" where
  "py_get (JDict kvs) k d = Inr (case map_of kvs k of Some v \<Rightarrow> v | None \<Rightarrow> d)"
| "py_get x k d =
     Inl (AttributeError (py_repr_key (type_name x) @ '' object has no attribute '' @ py_repr_key ''get''))"

text \<open>\<^verbatim>\<open>x[k]\<close> for a string key \<open>k\<close>.\<close>

fun py_item :: "json \<Rightarrow> string \<Rightarrow> exn + json" where
  "py_item (JDict kvs) k =
     (case map_of kvs k of Some v \<Rightarrow> Inr v | None \<Rightarrow> Inl (KeyError (py_repr_key k)))"
| "py_item (JList xs) k = Inl (TypeError ''list indices must be integers or slices, not str'')"
| "py_item (JStr s) k = Inl (TypeError (''string indices must be integers, not '' @ py_repr_key ''str''))"
| "py_item x k = Inl (TypeError (py_repr_key (type_name x) @ '' object is not subscriptable''))"

text \<open>Decimal text of a natural number, as \<^verbatim>\<open>str(idx)\<close> prints a row label.\<close>

definition digit_char :: "nat \<Rightarrow> char" where
  "digit_char d = char_of (48 + d)"

function show_nat :: "nat \<Rightarrow> string" where
  "show_nat n = (if n < 10 then [digit_char n] else show_nat (n div 10) @ [digit_char (n mod 10)])"
  by pat_completeness auto
termination
  by (relation "measure id") auto

declare show_nat.simps [simp del]

section \<open>Problem Builder: \<^verbatim>\<open>cuopt_preparation_function.py\<close>\<close>

text \<open>
  A cell of the order table is modelled by what \<^verbatim>\<open>int(row[col])\<close> does on it:
  it returns an integer, or raises (a \<^verbatim>\<open>ValueError\<close> or \<^verbatim>\<open>TypeError\<close> of the
  conversion, a \<^verbatim>\<open>KeyError\<close> when the table has no such column).
\<close>

datatype cell = Coercible int | Raises exn

record order_row =
  pickup_location :: cell
  delivery_location :: cell
  order_demand :: cell
  earliest_pickup :: cell
  latest_pickup :: cell
  pickup_service_time :: cell
  earliest_delivery :: cell
  latest_delivery :: cell
  delivery_service_time :: cell

fun py_int :: "cell \<Rightarrow> exn + int" where
  "py_int (Coercible n) = Inr n"
| "py_int (Raises e) = Inl e"

record waypoint_graph =
  edges :: "int list"
  offsets :: "int list"
  weights :: "int list"

definition WAYPOINT_GRAPH :: waypoint_graph where
  "WAYPOINT_GRAPH = \<lparr>
     edges = [1, 2, 3, 4, 5, 6, 7, 8, 0, 5, 6, 7, 8, 0, 5, 6, 7, 8, 0, 5, 6, 7, 8, 0,
              5, 6, 7, 8, 0, 1, 2, 3, 4, 0, 1, 2, 3, 4, 0, 1, 2, 3, 4, 0, 1, 2, 3, 4],
     offsets = [0, 8, 13, 18, 23, 28, 33, 38, 43, 48],
     weights = [1, 2, 3, 4, 1, 2, 3, 4, 1, 2, 3, 3, 4, 2, 3, 4, 4, 5, 3, 5, 4, 4, 4, 4,
                5, 4, 3, 3, 1, 2, 3, 5, 5, 2, 3, 4, 4, 4, 3, 3, 4, 4, 3, 4, 4, 5, 4, 3] \<rparr>"

text \<open>The five lists the loop over the rows appends to.\<close>

record task_lists =
  acc_task_locations :: "int list"
  acc_demand :: "int list"
  acc_task_time_windows :: "int list list"
  acc_service_times :: "int list"
  acc_pickup_delivery_pairs :: "int list list"

definition empty_task_lists :: task_lists where
  "empty_task_lists = \<lparr> acc_task_locations = [], acc_demand = [], acc_task_time_windows = [],
     acc_service_times = [], acc_pickup_delivery_pairs = [] \<rparr>"

record task_data =
  task_locations :: "int list"
  demand :: "int list list"
  task_time_windows :: "int list list"
  service_times :: "int list"
  pickup_and_delivery_pairs :: "int list list"

record fleet_data =
  vehicle_locations :: "int list list"
  capacities :: "json list list"
  vehicle_time_windows :: "int list list"

record solver_config =
  time_limit :: int

text \<open>
  The solver's input. \<open>cost_waypoint_graph_data\<close> holds the graph that the source nests
  under the keys \<^verbatim>\<open>"waypoint_graph"\<close> and \<^verbatim>\<open>"0"\<close>.
\<close>

record cuopt_input =
  cost_waypoint_graph_data :: waypoint_graph
  task_data :: task_data
  fleet_data :: fleet_data
  solver_config :: solver_config

text \<open>
  The body of the inner \<^verbatim>\<open>try\<close>: the nine conversions in the order of the source,
  then the appends. \<open>idx\<close> is the row's label, which for a table built from a list of
  records is its position.
\<close>

definition convert_row :: "nat \<Rightarrow> order_row \<Rightarrow> task_lists \<Rightarrow> exn + task_lists" where
  "convert_row idx row acc =
    and_then (py_int (pickup_location row)) (\<lambda>pickup_loc.
    and_then (py_int (delivery_location row)) (\<lambda>delivery_loc.
    and_then (py_int (order_demand row)) (\<lambda>order_dem.
    and_then (py_int (earliest_pickup row)) (\<lambda>earliest_pick.
    and_then (py_int (latest_pickup row)) (\<lambda>latest_pick.
    and_then (py_int (pickup_service_time row)) (\<lambda>pickup_service.
    and_then (py_int (earliest_delivery row)) (\<lambda>earliest_del.
    and_then (py_int (latest_delivery row)) (\<lambda>latest_del.
    and_then (py_int (delivery_service_time row)) (\<lambda>delivery_service.
      Inr \<lparr> acc_task_locations = acc_task_locations acc @ [pickup_loc, delivery_loc],
            acc_demand = acc_demand acc @ [order_dem, - order_dem],
            acc_task_time_windows = acc_task_time_windows acc
              @ [[earliest_pick, latest_pick], [earliest_del, latest_del]],
            acc_service_times = acc_service_times acc @ [pickup_service, delivery_service],
            acc_pickup_delivery_pairs = acc_pickup_delivery_pairs acc
              @ [[2 * int idx, 2 * int idx + 1]] \<rparr>)))))))))"

text \<open>\<^verbatim>\<open>except (ValueError, TypeError) as e: raise ValueError(...)\<close>; any other class passes.\<close>

fun reraise_row :: "nat \<Rightarrow> exn \<Rightarrow> exn" where
  "reraise_row idx (ValueError m) =
     ValueError (''Invalid data in row '' @ show_nat idx @ '': '' @ m)"
| "reraise_row idx (TypeError m) =
     ValueError (''Invalid data in row '' @ show_nat idx @ '': '' @ m)"
| "reraise_row idx e = e"

fun process_rows :: "nat \<Rightarrow> order_row list \<Rightarrow> task_lists \<Rightarrow> exn + task_lists" where
  "process_rows idx [] acc = Inr acc"
| "process_rows idx (row # rows) acc =
     (case convert_row idx row acc of
        Inl e \<Rightarrow> Inl (reraise_row idx e)
      | Inr acc' \<Rightarrow> process_rows (Suc idx) rows acc')"

text \<open>
  \<^verbatim>\<open>range(n)\<close> and \<^verbatim>\<open>[x] * n\<close> need an integer (a \<^verbatim>\<open>bool\<close> is one); the number
  of iterations is zero for a negative \<open>n\<close>.
\<close>

fun py_range_len :: "json \<Rightarrow> exn + nat" where
  "py_range_len (JInt n) = Inr (nat n)"
| "py_range_len (JBool b) = Inr (if b then 1 else 0)"
| "py_range_len x =
     Inl (TypeError (py_repr_key (type_name x) @ '' object cannot be interpreted as an integer''))"

text \<open>
  The fleet configuration: the defaults, each replaced by the value of the change request
  when its \<^verbatim>\<open>needed\<close> flag is truthy. The result is \<open>(num_forklifts, forklift_capacity)\<close>.
\<close>

definition fleet_configuration :: "json \<Rightarrow> exn + (json \<times> json)" where
  "fleet_configuration fleet_changes =
    and_then (py_get fleet_changes ''modify_fleet_size'' (JDict [])) (\<lambda>size_changes.
    and_then (py_get size_changes ''needed'' JNull) (\<lambda>size_needed.
    and_then (if truthy size_needed
              then and_then (py_item fleet_changes ''modify_fleet_size'')
                     (\<lambda>d. py_item d ''new_size'')
              else Inr (JInt 4)) (\<lambda>num_forklifts.
    and_then (py_get fleet_changes ''modify_capacity'' (JDict [])) (\<lambda>capacity_changes.
    and_then (py_get capacity_changes ''needed'' JNull) (\<lambda>capacity_needed.
    and_then (if truthy capacity_needed
              then and_then (py_item fleet_changes ''modify_capacity'')
                     (\<lambda>d. py_item d ''new_capacity'')
              else Inr (JInt 1)) (\<lambda>forklift_capacity.
      Inr (num_forklifts, forklift_capacity)))))))"

text \<open>
  The input dictionary of the Problem Builder, by the two keys it reads. For
  \<open>transport_data\<close>, \<open>None\<close> is a missing key or the value \<^verbatim>\<open>None\<close>; for
  \<open>fleet_changes\<close>, \<open>None\<close> is a missing key.
\<close>

record prepare_input =
  transport_data :: "order_row list option"
  fleet_changes :: "json option"

definition build_cuopt_input :: "task_lists \<Rightarrow> nat \<Rightarrow> json \<Rightarrow> cuopt_input" where
  "build_cuopt_input acc n forklift_capacity =
     \<lparr> cost_waypoint_graph_data = WAYPOINT_GRAPH,
       task_data = \<lparr> task_locations = acc_task_locations acc,
                     demand = [acc_demand acc],
                     task_time_windows = acc_task_time_windows acc,
                     service_times = acc_service_times acc,
                     pickup_and_delivery_pairs = acc_pickup_delivery_pairs acc \<rparr>,
       fleet_data = \<lparr> vehicle_locations = replicate n [0, 0],
                      capacities = [replicate n forklift_capacity],
                      vehicle_time_windows = replicate n [0, 100] \<rparr>,
       solver_config = \<lparr> time_limit = 5 \<rparr> \<rparr>"

definition fleet_changes_of :: "prepare_input \<Rightarrow> json" where
  "fleet_changes_of input_data =
     (case fleet_changes input_data of None \<Rightarrow> JDict [] | Some fc \<Rightarrow> fc)"

definition prepare_body :: "prepare_input \<Rightarrow> exn + cuopt_input" where
  "prepare_body input_data =
    (case transport_data input_data of
       None \<Rightarrow> Inl (ValueError ''Transport data is missing or empty'')
     | Some rows \<Rightarrow>
         if length rows = 0 then Inl (ValueError ''Transport data is missing or empty'')
         else
           and_then (process_rows 0 rows empty_task_lists) (\<lambda>acc.
           and_then (fleet_configuration (fleet_changes_of input_data))
             (\<lambda>(num_forklifts, forklift_capacity).
           and_then (py_range_len num_forklifts) (\<lambda>n.
             Inr (build_cuopt_input acc n forklift_capacity)))))"

definition prepare_fn :: "prepare_input \<Rightarrow> cuopt_input stage_result" where
  "prepare_fn input_data =
    (case prepare_body input_data of
       Inl e \<Rightarrow> ErrorDict (''cuOpt preparation failed: '' @ str_exn e)
     | Inr cuopt \<Rightarrow> Payload cuopt)"


section \<open>Query Interpreter: \<^verbatim>\<open>analyze_query_function.py\<close>\<close>

text \<open>Strings: \<^verbatim>\<open>s.find(c)\<close>, \<^verbatim>\<open>s.rfind(c)\<close>, a slice, \<^verbatim>\<open>sub in s\<close>, \<^verbatim>\<open>s.lower()\<close> on ASCII text.\<close>

fun py_find :: "char \<Rightarrow> string \<Rightarrow> int" where
  "py_find c [] = - 1"
| "py_find c (x # xs) =
     (if x = c then 0 else (let i = py_find c xs in if i < 0 then - 1 else i + 1))"

fun py_rfind :: "char \<Rightarrow> string \<Rightarrow> int" where
  "py_rfind c [] = - 1"
| "py_rfind c (x # xs) =
     (let i = py_rfind c xs in if 0 \<le> i then i + 1 else if x = c then 0 else - 1)"

definition py_slice :: "string \<Rightarrow> int \<Rightarrow> int \<Rightarrow> string" where
  "py_slice s start_idx end_idx = take (nat (end_idx - start_idx)) (drop (nat start_idx) s)"

fun starts_with :: "string \<Rightarrow> string \<Rightarrow> bool" where
  "starts_with [] s = True"
| "starts_with (p # ps) [] = False"
| "starts_with (p # ps) (c # cs) = (p = c \<and> starts_with ps cs)"

fun py_in_str :: "string \<Rightarrow> string \<Rightarrow> bool" where
  "py_in_str sub [] = (sub = [])"
| "py_in_str sub (c # cs) = (starts_with sub (c # cs) \<or> py_in_str sub cs)"

definition lower_char :: "char \<Rightarrow> char" where
  "lower_char c =
     (let n = (of_char c :: nat) in if 65 \<le> n \<and> n \<le> 90 then char_of (n + 32) else c)"

definition py_lower :: "string \<Rightarrow> string" where
  "py_lower s = map lower_char s"

text \<open>\<^verbatim>\<open>k in x\<close> for a string \<open>k\<close>, and \<^verbatim>\<open>x[k] = v\<close>.\<close>

fun py_contains :: "json \<Rightarrow> string \<Rightarrow> exn + bool" where
  "py_contains (JDict kvs) k = Inr (map_of kvs k \<noteq> None)"
| "py_contains (JList xs) k = Inr (List.member xs (JStr k))"
| "py_contains (JStr s) k = Inr (py_in_str k s)"
| "py_contains x k =
     Inl (TypeError (''argument of type '' @ py_repr_key (type_name x) @ '' is not iterable''))"

fun dict_update :: "string \<Rightarrow> json \<Rightarrow> (string \<times> json) list \<Rightarrow> (string \<times> json) list" where
  "dict_update k v [] = [(k, v)]"
| "dict_update k v ((k', v') # kvs) =
     (if k' = k then (k, v) # kvs else (k', v') # dict_update k v kvs)"

fun py_setitem :: "json \<Rightarrow> string \<Rightarrow> json \<Rightarrow> exn + json" where
  "py_setitem (JDict kvs) k v = Inr (JDict (dict_update k v kvs))"
| "py_setitem (JList xs) k v =
     Inl (TypeError ''list indices must be integers or slices, not str'')"
| "py_setitem x k v =
     Inl (TypeError (py_repr_key (type_name x) @ '' object does not support item assignment''))"

text \<open>
  The two collaborators of the interpreter: the language model's answer to the prompt
  (the call raises, or returns a text), and \<^verbatim>\<open>json.loads\<close> (a value, a
  \<^verbatim>\<open>JSONDecodeError\<close>, or another exception).
\<close>

datatype llm_outcome = LlmRaised exn | LlmReplied string

datatype loads_outcome = Loaded json | DecodeError | LoadsRaised exn

definition create_default_analysis :: "string \<Rightarrow> json" where
  "create_default_analysis query =
    (let q = py_lower query;
         modify_fleet_size =
           (if py_in_str ''2 forklifts'' q \<or> py_in_str ''two forklifts'' q
            then JDict [(''needed'', JBool True), (''new_size'', JInt 2)]
            else if py_in_str ''3 forklifts'' q \<or> py_in_str ''three forklifts'' q
            then JDict [(''needed'', JBool True), (''new_size'', JInt 3)]
            else JDict [(''needed'', JBool False)]);
         modify_capacity =
           (if py_in_str ''two items'' q \<or> py_in_str ''2 items'' q \<or> py_in_str ''carry two'' q
            then JDict [(''needed'', JBool True), (''new_capacity'', JInt 2)]
            else JDict [(''needed'', JBool False)])
     in JDict
       [(''query_type'', JStr ''route_optimization''),
        (''transport_data_changes'', JDict
           [(''modify_service_times'', JDict [(''needed'', JBool False)]),
            (''modify_time_windows'', JDict [(''needed'', JBool False)]),
            (''remove_orders'', JDict [(''needed'', JBool False)])]),
        (''fleet_changes'', JDict
           [(''modify_capacity'', modify_capacity),
            (''modify_fleet_size'', modify_fleet_size)]),
        (''required_analyses'', JDict [(''visualization_needed'', JBool True)])])"

text \<open>
  Parsing the model's text: \<^verbatim>\<open>json.loads\<close> on the whole text, on a decode error the
  text from the first opening to the last closing brace, and the default analysis when
  that fails as well (the inner \<^verbatim>\<open>except:\<close> catches everything).
\<close>

definition parse_content :: "(string \<Rightarrow> loads_outcome) \<Rightarrow> string \<Rightarrow> string \<Rightarrow> exn + json" where
  "parse_content json_loads query content =
    (case json_loads content of
       Loaded analysis \<Rightarrow> Inr analysis
     | LoadsRaised e \<Rightarrow> Inl e
     | DecodeError \<Rightarrow>
         (let start_idx = py_find (CHR ''{'') content;
              end_idx = py_rfind (CHR ''}'') content + 1
          in if 0 \<le> start_idx \<and> start_idx < end_idx
             then (case json_loads (py_slice content start_idx end_idx) of
                     Loaded analysis \<Rightarrow> Inr analysis
                   | DecodeError \<Rightarrow> Inr (create_default_analysis query)
                   | LoadsRaised e \<Rightarrow> Inr (create_default_analysis query))
             else Inr (create_default_analysis query)))"

text \<open>
  \<^verbatim>\<open>if "required_analyses" not in analysis: analysis["required_analyses"] = {}\<close> and
  \<^verbatim>\<open>analysis["required_analyses"]["visualization_needed"] = True\<close>. The inner dictionary is
  changed in place, so the analysis holds the changed one.
\<close>

definition force_visualization :: "json \<Rightarrow> exn + json" where
  "force_visualization analysis =
    and_then (py_contains analysis ''required_analyses'') (\<lambda>present.
    and_then (if \<not> present then py_setitem analysis ''required_analyses'' (JDict [])
              else Inr analysis) (\<lambda>analysis1.
    and_then (py_item analysis1 ''required_analyses'') (\<lambda>required.
    and_then (py_setitem required ''visualization_needed'' (JBool True)) (\<lambda>required1.
      py_setitem analysis1 ''required_analyses'' required1))))"

definition analyze_body :: "(string \<Rightarrow> loads_outcome) \<Rightarrow> llm_outcome \<Rightarrow> string \<Rightarrow> exn + json" where
  "analyze_body json_loads llm query =
    (case llm of
       LlmRaised e \<Rightarrow> Inl e
     | LlmReplied content \<Rightarrow>
         and_then (parse_content json_loads query content) force_visualization)"

definition analyze_fn :: "(string \<Rightarrow> loads_outcome) \<Rightarrow> llm_outcome \<Rightarrow> string \<Rightarrow> json" where
  "analyze_fn json_loads llm query =
    (case analyze_body json_loads llm query of
       Inl e \<Rightarrow> create_default_analysis query
     | Inr analysis \<Rightarrow> analysis)"

section \<open>Data Modifier: \<^verbatim>\<open>data_modifier_function.py\<close>\<close>

text \<open>
  Loading the order table: reading a file that was found raises or gives a table; with
  no file the built-in table is used.
\<close>

datatype csv_outcome = CsvRaised exn | CsvFrame "order_row list" | CsvNotFound

definition default_transport_data :: "order_row list" where
  "default_transport_data = map (\<lambda>i.
     \<lparr> pickup_location       = Coercible ([1,  1,  3,  2,  3,  4, 1, 2, 2] ! i),
       delivery_location     = Coercible ([5,  5,  5,  6,  7,  7, 8, 8, 8] ! i),
       order_demand          = Coercible ([1,  1,  1,  1,  1,  1, 1, 1, 1] ! i),
       earliest_pickup       = Coercible ([0,  0,  0,  0,  0,  0, 0, 0, 0] ! i),
       latest_pickup         = Coercible ([10, 20, 30, 10, 20, 30, 10, 20, 30] ! i),
       pickup_service_time   = Coercible ([2,  2,  2,  2,  2,  2, 2, 2, 2] ! i),
       earliest_delivery     = Coercible ([0,  0,  0,  0,  0,  0, 0, 0, 0] ! i),
       latest_delivery       = Coercible ([55, 55, 55, 55, 55, 55, 55, 55, 55] ! i),
       delivery_service_time = Coercible ([2,  2,  2,  2,  2,  2, 2, 2, 2] ! i) \<rparr>)
     [0, 1, 2, 3, 4, 5, 6, 7, 8]"

definition load_transport_data :: "csv_outcome \<Rightarrow> exn + order_row list" where
  "load_transport_data csv =
    (case csv of
       CsvRaised e \<Rightarrow> Inl e
     | CsvFrame rows \<Rightarrow> Inr rows
     | CsvNotFound \<Rightarrow> Inr default_transport_data)"

record modified_data =
  out_transport_data :: "order_row list"
  out_fleet_changes :: json
  out_query_type :: json

text \<open>
  The body of the \<^verbatim>\<open>try\<close>. The two table operations of pandas are parameters:
  \<open>pd_drop rows indices\<close> is \<^verbatim>\<open>rows.drop(indices).reset_index(drop=True)\<close> and
  \<open>pd_append rows new_orders\<close> is
  \<^verbatim>\<open>pd.concat([rows, pd.DataFrame(new_orders)], ignore_index=True)\<close>. \<open>needed_flag\<close> is
  the test \<^verbatim>\<open>changes and changes.get("needed", False)\<close> of the blocks for the service
  times and the time windows, which only log.
\<close>

definition remove_orders_step ::
  "(order_row list \<Rightarrow> json \<Rightarrow> exn + order_row list) \<Rightarrow> order_row list \<Rightarrow> json \<Rightarrow>
   exn + order_row list" where
  "remove_orders_step pd_drop modified remove_orders =
    (if truthy remove_orders
     then and_then (py_get remove_orders ''needed'' (JBool False)) (\<lambda>needed.
            if truthy needed
            then and_then (py_get remove_orders ''order_indices'' (JList [])) (\<lambda>order_indices.
                   if truthy order_indices then pd_drop modified order_indices
                   else Inr modified)
            else Inr modified)
     else Inr modified)"

definition needed_flag :: "json \<Rightarrow> exn + json" where
  "needed_flag changes =
    (if truthy changes then py_get changes ''needed'' (JBool False) else Inr changes)"

definition modify_body ::
  "(order_row list \<Rightarrow> json \<Rightarrow> exn + order_row list) \<Rightarrow>
   (order_row list \<Rightarrow> json \<Rightarrow> exn + order_row list) \<Rightarrow>
   csv_outcome \<Rightarrow> json \<Rightarrow> exn + modified_data" where
  "modify_body pd_drop pd_append csv analysis_result =
    and_then (load_transport_data csv) (\<lambda>transport.
    and_then (py_get analysis_result ''transport_data_changes'' (JDict []))
      (\<lambda>transport_data_changes.
    and_then (py_get analysis_result ''new_orders'' (JList [])) (\<lambda>new_orders.
    and_then (py_get transport_data_changes ''remove_orders'' (JDict [])) (\<lambda>remove_orders.
    and_then (remove_orders_step pd_drop transport remove_orders) (\<lambda>removed.
    and_then (if truthy new_orders then pd_append removed new_orders else Inr removed)
      (\<lambda>modified.
    and_then (py_get transport_data_changes ''modify_service_times'' (JDict []))
      (\<lambda>service_time_changes.
    and_then (needed_flag service_time_changes) (\<lambda>service_flag.
    and_then (py_get transport_data_changes ''modify_time_windows'' (JDict []))
      (\<lambda>time_window_changes.
    and_then (needed_flag time_window_changes) (\<lambda>window_flag.
    and_then (py_get analysis_result ''fleet_changes'' (JDict [])) (\<lambda>fc.
    and_then (py_get analysis_result ''query_type'' (JStr ''route_optimization'')) (\<lambda>qt.
      Inr \<lparr> out_transport_data = modified, out_fleet_changes = fc,
            out_query_type = qt \<rparr>))))))))))))"

definition modify_data_fn ::
  "(order_row list \<Rightarrow> json \<Rightarrow> exn + order_row list) \<Rightarrow>
   (order_row list \<Rightarrow> json \<Rightarrow> exn + order_row list) \<Rightarrow>
   csv_outcome \<Rightarrow> json \<Rightarrow> modified_data stage_result" where
  "modify_data_fn pd_drop pd_append csv analysis_result =
    (case modify_body pd_drop pd_append csv analysis_result of
       Inl e \<Rightarrow> ErrorDict (''Data modification failed: '' @ str_exn e)
     | Inr result \<Rightarrow> Payload result)"


section \<open>Solver Gateway: \<^verbatim>\<open>cuopt_solver_function.py\<close>\<close>

text \<open>\<^verbatim>\<open>len(x)\<close>, \<^verbatim>\<open>x[count]\<close> for a counter, \<^verbatim>\<open>for v in x\<close>, and \<^verbatim>\<open>x[key]\<close> for any key.\<close>

definition show_int :: "int \<Rightarrow> string" where
  "show_int n = (if n < 0 then ''-'' @ show_nat (nat (- n)) else show_nat (nat n))"

fun py_len :: "json \<Rightarrow> exn + nat" where
  "py_len (JList xs) = Inr (length xs)"
| "py_len (JStr s) = Inr (length s)"
| "py_len (JDict kvs) = Inr (length kvs)"
| "py_len x = Inl (TypeError (''object of type '' @ py_repr_key (type_name x) @ '' has no len()''))"

fun py_index :: "json \<Rightarrow> nat \<Rightarrow> exn + json" where
  "py_index (JList xs) i =
     (if i < length xs then Inr (xs ! i) else Inl (IndexError ''list index out of range''))"
| "py_index (JStr s) i =
     (if i < length s then Inr (JStr [s ! i]) else Inl (IndexError ''string index out of range''))"
| "py_index (JDict kvs) i = Inl (KeyError (show_nat i))"
| "py_index x i = Inl (TypeError (py_repr_key (type_name x) @ '' object is not subscriptable''))"

fun py_iter :: "json \<Rightarrow> exn + json list" where
  "py_iter (JList xs) = Inr xs"
| "py_iter (JStr s) = Inr (map (\<lambda>c. JStr [c]) s)"
| "py_iter (JDict kvs) = Inr (map (\<lambda>kv. JStr (fst kv)) kvs)"
| "py_iter x = Inl (TypeError (py_repr_key (type_name x) @ '' object is not iterable''))"

fun py_hashable :: "json \<Rightarrow> bool" where
  "py_hashable (JList xs) = False"
| "py_hashable (JDict kvs) = False"
| "py_hashable x = True"

definition py_position :: "nat \<Rightarrow> int \<Rightarrow> nat option" where
  "py_position n i =
     (let j = (if i < 0 then int n + i else i) in if 0 \<le> j \<and> j < int n then Some (nat j) else None)"

fun py_subscript :: "json \<Rightarrow> json \<Rightarrow> exn + json" where
  "py_subscript (JDict kvs) (JStr k) = py_item (JDict kvs) k"
| "py_subscript (JDict kvs) (JInt i) = Inl (KeyError (show_int i))"
| "py_subscript (JDict kvs) (JBool b) = Inl (KeyError (if b then ''True'' else ''False''))"
| "py_subscript (JDict kvs) JNull = Inl (KeyError ''None'')"
| "py_subscript (JDict kvs) k =
     Inl (TypeError (''unhashable type: '' @ py_repr_key (type_name k)))"
| "py_subscript (JList xs) (JInt i) =
     (case py_position (length xs) i of
        Some j \<Rightarrow> Inr (xs ! j) | None \<Rightarrow> Inl (IndexError ''list index out of range''))"
| "py_subscript (JList xs) (JBool b) =
     (case py_position (length xs) (if b then 1 else 0) of
        Some j \<Rightarrow> Inr (xs ! j) | None \<Rightarrow> Inl (IndexError ''list index out of range''))"
| "py_subscript (JList xs) k =
     Inl (TypeError (''list indices must be integers or slices, not '' @ type_name k))"
| "py_subscript (JStr s) (JInt i) =
     (case py_position (length s) i of
        Some j \<Rightarrow> Inr (JStr [s ! j]) | None \<Rightarrow> Inl (IndexError ''string index out of range''))"
| "py_subscript (JStr s) (JBool b) =
     (case py_position (length s) (if b then 1 else 0) of
        Some j \<Rightarrow> Inr (JStr [s ! j]) | None \<Rightarrow> Inl (IndexError ''string index out of range''))"
| "py_subscript (JStr s) k =
     Inl (TypeError (''string indices must be integers, not '' @ py_repr_key (type_name k)))"
| "py_subscript x k =
     Inl (TypeError (py_repr_key (type_name x) @ '' object is not subscriptable''))"

definition CUOPT_INVOKE_URL :: string where
  "CUOPT_INVOKE_URL = ''https://optimize.api.nvidia.com/v1/nvidia/cuopt''"

definition CUOPT_STATUS_URL :: string where
  "CUOPT_STATUS_URL = ''https://optimize.api.nvidia.com/v1/status/''"

definition readable_map :: "(int \<times> string) list" where
  "readable_map =
    [(0, '': Forklift''),
     (1, '': Insulation''),
     (2, '': Weather Stripping''),
     (3, '': Fiber Glass''),
     (4, '': Shingles''),
     (5, '': Truck 1''),
     (6, '': Truck 2''),
     (7, '': Truck 3''),
     (8, '': Truck 4'')]"

text \<open>\<^verbatim>\<open>readable_map[loc]\<close>: the keys are integers, and \<^verbatim>\<open>True\<close> and \<^verbatim>\<open>False\<close> hash as 1 and 0.\<close>

definition readable_at :: "int \<Rightarrow> exn + string" where
  "readable_at n =
     (case map_of readable_map n of Some l \<Rightarrow> Inr l | None \<Rightarrow> Inl (KeyError (show_int n)))"

fun readable_label :: "json \<Rightarrow> exn + string" where
  "readable_label (JInt n) = readable_at n"
| "readable_label (JBool b) = readable_at (if b then 1 else 0)"
| "readable_label (JStr s) = Inl (KeyError (py_repr_key s))"
| "readable_label JNull = Inl (KeyError ''None'')"
| "readable_label x = Inl (TypeError (''unhashable type: '' @ py_repr_key (type_name x)))"

text \<open>
  The text of a value inside an f-string: a string as it is; for any other value Python's
  \<^verbatim>\<open>str\<close>, a parameter.
\<close>

definition format_value :: "(json \<Rightarrow> string) \<Rightarrow> json \<Rightarrow> string" where
  "format_value str v = (case v of JStr s \<Rightarrow> s | _ \<Rightarrow> str v)"

text \<open>
  One iteration of \<^verbatim>\<open>for loc in vehicle_data['route']\<close>: the readable entries it appends
  (none or one).
\<close>

definition route_step :: "(json \<Rightarrow> string) \<Rightarrow> json \<Rightarrow> nat \<Rightarrow> json \<Rightarrow> exn + string list" where
  "route_step str vehicle_data count loc =
    and_then (py_item vehicle_data ''type'') (\<lambda>types.
    and_then (py_len types) (\<lambda>n.
      if count < n
      then and_then (py_index types count) (\<lambda>t.
             if t \<noteq> JStr ''w''
             then and_then (readable_label loc) (\<lambda>label. Inr [format_value str t @ label])
             else Inr [])
      else Inr []))"

fun convert_route :: "(json \<Rightarrow> string) \<Rightarrow> json \<Rightarrow> nat \<Rightarrow> json list \<Rightarrow> exn + string list" where
  "convert_route str vehicle_data count [] = Inr []"
| "convert_route str vehicle_data count (loc # locs) =
     (case route_step str vehicle_data count loc of
        Inl e \<Rightarrow> Inl e
      | Inr step \<Rightarrow>
          (case convert_route str vehicle_data (count + 1) locs of
             Inl e \<Rightarrow> Inl e
           | Inr steps \<Rightarrow> Inr (step @ steps)))"

text \<open>\<^verbatim>\<open>converted_route\<close>: a dictionary from the vehicle keys to the readable entries.\<close>

definition route_has :: "(json \<times> string list) list \<Rightarrow> json \<Rightarrow> exn + bool" where
  "route_has converted vehicle =
     (if py_hashable vehicle then Inr (map_of converted vehicle \<noteq> None)
      else Inl (TypeError (''unhashable type: '' @ py_repr_key (type_name vehicle))))"

fun route_extend ::
  "(json \<times> string list) list \<Rightarrow> json \<Rightarrow> string list \<Rightarrow> (json \<times> string list) list" where
  "route_extend [] vehicle steps = []"
| "route_extend ((k, v) # kvs) vehicle steps =
     (if k = vehicle then (k, v @ steps) # kvs else (k, v) # route_extend kvs vehicle steps)"

definition convert_vehicle ::
  "(json \<Rightarrow> string) \<Rightarrow> json \<Rightarrow> json \<Rightarrow> (json \<times> string list) list \<Rightarrow>
   exn + (json \<times> string list) list" where
  "convert_vehicle str vehicles vehicle converted =
    and_then (route_has converted vehicle) (\<lambda>present.
    and_then (Inr (if \<not> present then converted @ [(vehicle, [])] else converted)) (\<lambda>converted1.
    and_then (py_subscript vehicles vehicle) (\<lambda>vehicle_data.
    and_then (py_item vehicle_data ''route'') (\<lambda>route.
    and_then (py_iter route) (\<lambda>locs.
    and_then (convert_route str vehicle_data 0 locs) (\<lambda>steps.
      Inr (route_extend converted1 vehicle steps)))))))"

fun convert_vehicles ::
  "(json \<Rightarrow> string) \<Rightarrow> json \<Rightarrow> json list \<Rightarrow> (json \<times> string list) list \<Rightarrow>
   exn + (json \<times> string list) list" where
  "convert_vehicles str vehicles [] converted = Inr converted"
| "convert_vehicles str vehicles (vehicle # rest) converted =
     (case convert_vehicle str vehicles vehicle converted of
        Inl e \<Rightarrow> Inl e
      | Inr converted1 \<Rightarrow> convert_vehicles str vehicles rest converted1)"

record solution_record =
  status :: json
  solution_cost :: json
  vehicle_data :: json
  readable_routes :: "(json \<times> string list) list"

text \<open>
  What the gateway does with the body of the final response: the solution and the raw
  response, or the error of a body without \<^verbatim>\<open>response.solver_response\<close>.
\<close>

definition normalize_solution ::
  "(json \<Rightarrow> string) \<Rightarrow> json \<Rightarrow> exn + (solution_record \<times> json) stage_result" where
  "normalize_solution str solution =
    and_then (py_contains solution ''response'') (\<lambda>has_response.
    and_then (if has_response
              then and_then (py_item solution ''response'')
                     (\<lambda>r. py_contains r ''solver_response'')
              else Inr False) (\<lambda>well_formed.
      if well_formed
      then
        and_then (and_then (py_item solution ''response'') (\<lambda>r. py_item r ''solver_response''))
          (\<lambda>solver_response.
        and_then (py_contains solver_response ''vehicle_data'') (\<lambda>has_vehicles.
        and_then (if has_vehicles
                  then and_then (py_item solver_response ''vehicle_data'') (\<lambda>vehicles.
                       and_then (py_iter vehicles) (\<lambda>keys.
                         convert_vehicles str vehicles keys []))
                  else Inr []) (\<lambda>converted_route.
        and_then (py_get solver_response ''status'' JNull) (\<lambda>st.
        and_then (py_get solver_response ''solution_cost'' JNull) (\<lambda>cost.
        and_then (py_get solver_response ''vehicle_data'' (JDict [])) (\<lambda>vd.
          Inr (Payload (\<lparr> status = st, solution_cost = cost, vehicle_data = vd,
                           readable_routes = converted_route \<rparr>, solution))))))))
      else Inr (ErrorDict ''Invalid response format from CuOpt API'')))"

text \<open>
  The HTTP exchange. A request is answered by a response or raises; the server is a
  function from the requests sent so far (the last one being the current one) to the
  outcome of the current one.
\<close>

record http_response =
  status_code :: int
  nvcf_reqid :: "string option"
  json_body :: "exn + json"

datatype http_outcome = RequestRaised exn | Response http_response

datatype http_request =
    POST string "(string \<times> string) list" string cuopt_input
  | GET string "(string \<times> string) list"

definition request_headers :: "string \<Rightarrow> (string \<times> string) list" where
  "request_headers api_key =
    [(''Authorization'', ''Bearer '' @ api_key),
     (''Accept'', ''application/json''),
     (''Content-Type'', ''application/json'')]"

text \<open>
  \<^verbatim>\<open>while response.status_code == 202\<close>: the loop has no bound, so its model is a partial
  function, \<open>None\<close> when the server answers 202 forever.
\<close>

partial_function (option) poll ::
  "(http_request list \<Rightarrow> http_outcome) \<Rightarrow> (string \<times> string) list \<Rightarrow> http_request list \<Rightarrow>
   http_response \<Rightarrow> ((exn + http_response) \<times> http_request list) option" where
  "poll server headers sent response =
    (if status_code response = 202
     then (case nvcf_reqid response of
             None \<Rightarrow>
               Some (Inl (TypeError (''can only concatenate str (not '' @ [CHR 0x22]
                       @ ''NoneType'' @ [CHR 0x22] @ '') to str'')), sent)
           | Some request_id \<Rightarrow>
               (case server (sent @ [GET (CUOPT_STATUS_URL @ request_id) headers]) of
                  RequestRaised e \<Rightarrow>
                    Some (Inl e, sent @ [GET (CUOPT_STATUS_URL @ request_id) headers])
                | Response next_response \<Rightarrow>
                    poll server headers (sent @ [GET (CUOPT_STATUS_URL @ request_id) headers])
                      next_response))
     else Some (Inr response, sent))"

definition raise_for_status :: "http_response \<Rightarrow> exn + unit" where
  "raise_for_status response =
    (if 400 \<le> status_code response \<and> status_code response < 600
     then Inl (HTTPError (show_int (status_code response) @ '' Error''))
     else Inr ())"

text \<open>
  The input of the gateway: the dictionary itself is the solver's input, or holds it under
  the key \<^verbatim>\<open>"cuopt_input"\<close>; the solver's input is a problem or carries the key
  \<^verbatim>\<open>"error"\<close>.
\<close>

datatype solver_input = Bare "cuopt_input stage_result" | UnderKey "cuopt_input stage_result"

fun cuopt_input_of :: "solver_input \<Rightarrow> cuopt_input stage_result" where
  "cuopt_input_of (Bare x) = x"
| "cuopt_input_of (UnderKey x) = x"

definition resolve_api_key :: "string \<Rightarrow> string option \<Rightarrow> string" where
  "resolve_api_key config_key environ_key =
    (if config_key \<noteq> [] then config_key
     else (case environ_key of None \<Rightarrow> [] | Some k \<Rightarrow> k))"

definition solve_body ::
  "(json \<Rightarrow> string) \<Rightarrow> (http_request list \<Rightarrow> http_outcome) \<Rightarrow> string \<Rightarrow> string option \<Rightarrow>
   solver_input \<Rightarrow>
   ((exn + (solution_record \<times> json) stage_result) \<times> http_request list) option" where
  "solve_body str server config_key environ_key input_data =
    (let api_key = resolve_api_key config_key environ_key in
     if api_key = [] then Some (Inl (ValueError ''No API key provided for NVIDIA CuOpt''), [])
     else
       (case cuopt_input_of input_data of
          ErrorDict error_msg \<Rightarrow> Some (Inr (ErrorDict error_msg), [])
        | Payload cuopt \<Rightarrow>
            (let headers = request_headers api_key;
                 request = POST CUOPT_INVOKE_URL headers ''cuOpt_OptimizedRouting'' cuopt
             in case server [request] of
                  RequestRaised e \<Rightarrow> Some (Inl e, [request])
                | Response first_response \<Rightarrow>
                    (case poll server headers [request] first_response of
                       None \<Rightarrow> None
                     | Some (polled, sent) \<Rightarrow>
                         Some (and_then polled (\<lambda>response.
                               and_then (raise_for_status response) (\<lambda>u.
                               and_then (json_body response) (normalize_solution str))),
                               sent)))))"

definition solve_fn ::
  "(json \<Rightarrow> string) \<Rightarrow> (http_request list \<Rightarrow> http_outcome) \<Rightarrow> string \<Rightarrow> string option \<Rightarrow>
   solver_input \<Rightarrow> ((solution_record \<times> json) stage_result \<times> http_request list) option" where
  "solve_fn str server config_key environ_key input_data =
    (case solve_body str server config_key environ_key input_data of
       None \<Rightarrow> None
     | Some (Inl e, sent) \<Rightarrow> Some (ErrorDict (''Error in CuOpt solver: '' @ str_exn e), sent)
     | Some (Inr result, sent) \<Rightarrow> Some (result, sent))"


section \<open>Orchestrator: \<^verbatim>\<open>cuOptIQAgent_function.py\<close>\<close>

text \<open>\<^verbatim>\<open>FactoryState\<close>; the empty dictionary of \<open>solution\<close> is \<open>None\<close>.\<close>

record factory_state =
  query :: string
  query_type :: string
  solution :: "solution_record option"
  errors :: "string list"
  logs :: "string list"
  visualization_timestamp :: "string option"

text \<open>
  Everything outside the repository that a run depends on: the language model's answer,
  \<^verbatim>\<open>json.loads\<close>, the order file, the two table operations of pandas, Python's \<^verbatim>\<open>str\<close>,
  the API key of the configuration and of the process environment, the solver's server,
  and the rendering of the charts (\<open>None\<close> when it succeeds) with the time stamp it is
  given.
\<close>

record environment =
  llm_reply :: llm_outcome
  loads :: "string \<Rightarrow> loads_outcome"
  order_file :: csv_outcome
  drop_rows :: "order_row list \<Rightarrow> json \<Rightarrow> exn + order_row list"
  append_rows :: "order_row list \<Rightarrow> json \<Rightarrow> exn + order_row list"
  str_of :: "json \<Rightarrow> string"
  cuopt_api_key :: string
  environ_api_key :: "string option"
  solver_server :: "http_request list \<Rightarrow> http_outcome"
  visualization_enabled :: bool
  visualize :: "factory_state \<Rightarrow> exn option"
  timestamp :: string

definition create_visualizations :: "environment \<Rightarrow> factory_state \<Rightarrow> factory_state" where
  "create_visualizations env state =
    (case visualize env state of
       None \<Rightarrow>
         state \<lparr> visualization_timestamp := Some (timestamp env),
                 logs := logs state @ [''Visualizations created successfully''] \<rparr>
     | Some e \<Rightarrow>
         state \<lparr> errors := errors state @ [''Visualization failed: '' @ str_exn e],
                 logs := logs state @ [''ERROR: '' @ (''Visualization failed: '' @ str_exn e)] \<rparr>)"

text \<open>
  What the Problem Builder reads in the Data Modifier's result: an error dictionary has
  neither of the two keys.
\<close>

fun prepare_input_of :: "modified_data stage_result \<Rightarrow> prepare_input" where
  "prepare_input_of (ErrorDict msg) = \<lparr> transport_data = None, fleet_changes = None \<rparr>"
| "prepare_input_of (Payload m) =
     \<lparr> transport_data = Some (out_transport_data m), fleet_changes = Some (out_fleet_changes m) \<rparr>"

definition initial_state :: "string \<Rightarrow> factory_state" where
  "initial_state q = \<lparr> query = q, query_type = ''route_optimization'', solution = None,
     errors = [], logs = [], visualization_timestamp = None \<rparr>"

fun record_solution ::
  "factory_state \<Rightarrow> (solution_record \<times> json) stage_result \<Rightarrow> factory_state" where
  "record_solution state (Payload (sol, raw)) = state \<lparr> solution := Some sol \<rparr>"
| "record_solution state (ErrorDict msg) = state \<lparr> errors := errors state @ [msg] \<rparr>"

text \<open>
  The four stages in sequence, each on the whole result of the one before, then the
  charts. The result is the final state, whose fields the source returns, with the HTTP
  requests that were sent; \<open>None\<close> when the polling never ends.
\<close>

definition process_query ::
  "environment \<Rightarrow> string \<Rightarrow> (factory_state \<times> http_request list) option" where
  "process_query env q =
    (let analyze_result = analyze_fn (loads env) (llm_reply env) q;
         modified = modify_data_fn (drop_rows env) (append_rows env) (order_file env) analyze_result;
         cuopt = prepare_fn (prepare_input_of modified)
     in case solve_fn (str_of env) (solver_server env) (cuopt_api_key env) (environ_api_key env)
               (Bare cuopt) of
          None \<Rightarrow> None
        | Some (result, sent) \<Rightarrow>
            (let state = record_solution (initial_state q) result
             in Some (if visualization_enabled env then create_visualizations env state
                      else state, sent)))"

section \<open>Vocabulary of the properties\<close>

text \<open>A problem to hand to the gateway in examples: no task, the default fleet.\<close>

definition example_problem :: cuopt_input where
  "example_problem = build_cuopt_input empty_task_lists 4 (JInt 1)"

text \<open>A row all of whose nine fields are integer-coercible.\<close>

fun is_coercible :: "cell \<Rightarrow> bool" where
  "is_coercible (Coercible n) = True"
| "is_coercible (Raises e) = False"

definition coercible_row :: "order_row \<Rightarrow> bool" where
  "coercible_row row =
    (is_coercible (pickup_location row) \<and> is_coercible (delivery_location row) \<and>
     is_coercible (order_demand row) \<and> is_coercible (earliest_pickup row) \<and>
     is_coercible (latest_pickup row) \<and> is_coercible (pickup_service_time row) \<and>
     is_coercible (earliest_delivery row) \<and> is_coercible (latest_delivery row) \<and>
     is_coercible (delivery_service_time row))"

text \<open>
  The value under a path of keys of nested dictionaries, and whether the \<^verbatim>\<open>needed\<close> flag of
  a change is set: present and true as \<^verbatim>\<open>if\<close> tests it, which for a Boolean flag is being
  \<^verbatim>\<open>true\<close>.
\<close>

fun json_path :: "json \<Rightarrow> string list \<Rightarrow> json option" where
  "json_path v [] = Some v"
| "json_path (JDict kvs) (k # ks) =
     (case map_of kvs k of None \<Rightarrow> None | Some v \<Rightarrow> json_path v ks)"
| "json_path v (k # ks) = None"





text \<open>
  A change request whose edits of the service times and of the time windows are absent or
  dictionaries, as its schema has them.
\<close>

fun absent_or_dict :: "json option \<Rightarrow> bool" where
  "absent_or_dict None = True"
| "absent_or_dict (Some (JDict kvs)) = True"
| "absent_or_dict (Some v) = False"

definition other_edits_are_dicts :: "json \<Rightarrow> bool" where
  "other_edits_are_dicts analysis =
     (absent_or_dict (json_path analysis [''transport_data_changes'', ''modify_service_times''])
    \<and> absent_or_dict (json_path analysis [''transport_data_changes'', ''modify_time_windows'']))"

text \<open>
  An environment for examples: the model is unavailable, there is no order file, the
  solver cannot be reached, a key is configured, the charts are switched off.
\<close>

definition example_env :: environment where
  "example_env =
     \<lparr> llm_reply = LlmRaised (OtherError ''model unavailable''),
       loads = (\<lambda>s. DecodeError),
       order_file = CsvNotFound,
       drop_rows = (\<lambda>rows v. Inl (KeyError ''not found in axis'')),
       append_rows = (\<lambda>rows v. Inl (ValueError ''cannot build a table'')),
       str_of = (\<lambda>v. []),
       cuopt_api_key = ''nvapi-key'',
       environ_api_key = None,
       solver_server = (\<lambda>sent. RequestRaised (OtherError ''connection refused'')),
       visualization_enabled = False,
       visualize = (\<lambda>state. None),
       timestamp = ''20240101_000000'' \<rparr>"

text \<open>
  Three variants of the example environment: the order file cannot be read; it holds no
  row; it holds no row and no API key is configured.
\<close>

definition unreadable_file_env :: environment where
  "unreadable_file_env = example_env \<lparr> order_file := CsvRaised (OtherError ''unreadable file'') \<rparr>"



text \<open>The first of them with the charts switched on.\<close>

definition unreadable_file_charts_env :: environment where
  "unreadable_file_charts_env = unreadable_file_env \<lparr> visualization_enabled := True \<rparr>"

text \<open>The error texts of the Problem Builder for no order and of the gateway for no key.\<close>

definition missing_or_empty_error :: string where
  "missing_or_empty_error = ''cuOpt preparation failed: Transport data is missing or empty''"

definition no_api_key_error :: string where
  "no_api_key_error = ''Error in CuOpt solver: No API key provided for NVIDIA CuOpt''"

text \<open>
  A response of the solver for one vehicle whose third step is a wait, and a server that
  answers the submission with 202 and the first poll with that response.
\<close>

definition example_response :: json where
  "example_response =
    JDict [(''response'', JDict [(''solver_response'', JDict
      [(''status'', JInt 0),
       (''solution_cost'', JInt 42),
       (''vehicle_data'', JDict
          [(''0'', JDict
             [(''route'', JList [JInt 0, JInt 1, JInt 1, JInt 5, JInt 0]),
              (''type'', JList [JStr ''Depot'', JStr ''Pickup'', JStr ''w'', JStr ''Delivery'',
                                JStr ''Depot''])])])])])]"

definition example_server :: "http_request list \<Rightarrow> http_outcome" where
  "example_server sent =
    (if length sent = 1
     then Response \<lparr> status_code = 202, nvcf_reqid = Some ''request-1'',
                      json_body = Inl (JSONDecodeError ''Expecting value'') \<rparr>
     else Response \<lparr> status_code = 200, nvcf_reqid = None, json_body = Inr example_response \<rparr>)"

section \<open>Sequencing\<close>

lemma and_then_Inl [simp]: "and_then (Inl e) f = Inl e"
  by (simp add: and_then_def)

lemma and_then_Inr [simp]: "and_then (Inr x) f = f x"
  by (simp add: and_then_def)

lemma and_then_eq_Inr: "and_then m f = Inr y \<longleftrightarrow> (\<exists>x. m = Inr x \<and> f x = Inr y)"
  by (cases m) auto

section \<open>Properties of the Problem Builder\<close>

lemma is_coercible_py_int: "is_coercible c \<Longrightarrow> \<exists>n. py_int c = Inr n"
  by (cases c) auto

lemma convert_row_coercible:
  assumes "coercible_row row"
  shows "\<exists>acc'. convert_row idx row acc = Inr acc'"
proof -
  from assms obtain a b c d e f g h i where
    "py_int (pickup_location row) = Inr a" "py_int (delivery_location row) = Inr b"
    "py_int (order_demand row) = Inr c" "py_int (earliest_pickup row) = Inr d"
    "py_int (latest_pickup row) = Inr e" "py_int (pickup_service_time row) = Inr f"
    "py_int (earliest_delivery row) = Inr g" "py_int (latest_delivery row) = Inr h"
    "py_int (delivery_service_time row) = Inr i"
    unfolding coercible_row_def by (meson is_coercible_py_int)
  then show ?thesis by (simp add: convert_row_def)
qed


lemma process_rows_coercible:
  "list_all coercible_row rows \<Longrightarrow> \<exists>acc'. process_rows idx rows acc = Inr acc'"
proof (induction rows arbitrary: idx acc)
  case Nil
  then show ?case by simp
next
  case (Cons row rows)
  from Cons.prems have "coercible_row row" by simp
  then obtain acc1 where "convert_row idx row acc = Inr acc1"
    using convert_row_coercible by blast
  with Cons show ?case by simp
qed







lemma length_default_rows: "length default_transport_data = 9"
  by (simp add: default_transport_data_def)










section \<open>Properties of the Query Interpreter\<close>

lemma map_of_dict_update: "map_of (dict_update k v kvs) k = Some v"
  by (induction kvs) auto

lemma default_analysis_visualization:
  "json_path (create_default_analysis q) [''required_analyses'', ''visualization_needed'']
     = Some (JBool True)"
  by (simp add: create_default_analysis_def Let_def)

lemma force_visualization_sets:
  assumes "force_visualization analysis = Inr forced"
  shows "json_path forced [''required_analyses'', ''visualization_needed''] = Some (JBool True)"
proof -
  from assms obtain present analysis1 required required1 where
    a1: "(if \<not> present then py_setitem analysis ''required_analyses'' (JDict [])
          else Inr analysis) = Inr analysis1" and
    r: "py_item analysis1 ''required_analyses'' = Inr required" and
    r1: "py_setitem required ''visualization_needed'' (JBool True) = Inr required1" and
    f: "py_setitem analysis1 ''required_analyses'' required1 = Inr forced"
    unfolding force_visualization_def by (auto simp: and_then_eq_Inr)
  from r1 obtain rs where "required1 = JDict (dict_update ''visualization_needed'' (JBool True) rs)"
    by (cases required) auto
  moreover from f obtain kvs where
    "forced = JDict (dict_update ''required_analyses'' required1 kvs)"
    by (cases analysis1) auto
  ultimately show ?thesis
    by (simp add: map_of_dict_update)
qed

text \<open>
  C2. For every query, whatever the language model answers and whatever \<^verbatim>\<open>json.loads\<close>
  makes of the answer, the analysis that the interpreter returns has
  \<^verbatim>\<open>required_analyses.visualization_needed\<close> equal to \<^verbatim>\<open>true\<close>: on the parse of the whole
  answer, on the parse between the braces, and on every path to the default analysis.
\<close>

theorem analyze_forces_visualization:
  "json_path (analyze_fn json_loads llm q) [''required_analyses'', ''visualization_needed'']
     = Some (JBool True)"
proof (cases "analyze_body json_loads llm q")
  case (Inl e)
  then show ?thesis
    by (simp add: analyze_fn_def default_analysis_visualization)
next
  case (Inr analysis)
  then have "\<exists>a. force_visualization a = Inr analysis"
    unfolding analyze_body_def by (auto simp: and_then_eq_Inr split: llm_outcome.splits)
  then have "json_path analysis [''required_analyses'', ''visualization_needed''] = Some (JBool True)"
    using force_visualization_sets by blast
  with Inr show ?thesis
    by (simp add: analyze_fn_def)
qed

theorem analyze_forces_visualization_witness:
  "analyze_fn (\<lambda>s. Loaded (JDict [(''required_analyses'',
        JDict [(''visualization_needed'', JBool False)])])) (LlmReplied ''{}'') ''use 2 forklifts''
     = JDict [(''required_analyses'', JDict [(''visualization_needed'', JBool True)])]
 \<and> json_path (analyze_fn (\<lambda>s. DecodeError) (LlmReplied ''no json here'') ''use 2 forklifts'')
      [''required_analyses'', ''visualization_needed''] = Some (JBool True)
 \<and> json_path (analyze_fn (\<lambda>s. Loaded (JList [])) (LlmReplied ''[]'') ''use 2 forklifts'')
      [''required_analyses'', ''visualization_needed''] = Some (JBool True)"
  using analyze_forces_visualization [of "\<lambda>s. DecodeError" "LlmReplied ''no json here''"
      "''use 2 forklifts''"]
    analyze_forces_visualization [of "\<lambda>s. Loaded (JList [])" "LlmReplied ''[]''"
      "''use 2 forklifts''"]
  by (simp add: analyze_fn_def analyze_body_def parse_content_def force_visualization_def)

lemma lower_use_2_forklifts: "py_lower ''use 2 forklifts'' = ''use 2 forklifts''"
  by (simp add: py_lower_def lower_char_def)

text \<open>
  C9. For the query \<^verbatim>\<open>use 2 forklifts\<close>, when the call of the language model raises, the
  analysis has \<^verbatim>\<open>fleet_changes.modify_fleet_size\<close> equal to
  \<^verbatim>\<open>{"needed": true, "new_size": 2}\<close>.
\<close>

theorem fallback_two_forklifts:
  "json_path (analyze_fn json_loads (LlmRaised e) ''use 2 forklifts'')
     [''fleet_changes'', ''modify_fleet_size'']
     = Some (JDict [(''needed'', JBool True), (''new_size'', JInt 2)])"
  by (simp add: analyze_fn_def analyze_body_def create_default_analysis_def
      lower_use_2_forklifts)

theorem fallback_two_forklifts_witness:
  "json_path (analyze_fn (\<lambda>s. DecodeError) (LlmRaised (OtherError ''connection refused''))
       ''use 2 forklifts'') [''fleet_changes'', ''modify_fleet_size'']
     = Some (JDict [(''needed'', JBool True), (''new_size'', JInt 2)])"
  using fallback_two_forklifts [of "\<lambda>s. DecodeError" "OtherError ''connection refused''"]
  by simp

section \<open>Properties of the Data Modifier\<close>

lemma json_path_Cons_Some:
  "json_path v (k # ks) = Some x \<Longrightarrow>
   \<exists>kvs w. v = JDict kvs \<and> map_of kvs k = Some w \<and> json_path w ks = Some x"
  by (cases v) (auto split: option.splits)

lemma needed_flag_dict: "\<exists>v. needed_flag (JDict kvs) = Inr v"
  by (simp add: needed_flag_def)

text \<open>
  C7. For a change request with \<^verbatim>\<open>remove_orders.needed\<close> equal to \<^verbatim>\<open>false\<close> and
  \<^verbatim>\<open>new_orders\<close> empty or absent, the order set that the Data Modifier returns is the loaded
  one, so it has as many rows. A result is returned whenever the two other edits of the
  request are absent or dictionaries.
\<close>

theorem modify_without_changes:
  assumes needed: "json_path analysis [''transport_data_changes'', ''remove_orders'', ''needed'']
                     = Some (JBool False)"
    and new: "json_path analysis [''new_orders''] = None
            \<or> json_path analysis [''new_orders''] = Some (JList [])"
    and load: "load_transport_data file = Inr loaded"
  shows "(\<forall>out. modify_data_fn dropf appendf file analysis = Payload out \<longrightarrow>
            out_transport_data out = loaded
          \<and> length (out_transport_data out) = length loaded)
       \<and> (other_edits_are_dicts analysis \<longrightarrow>
            (\<exists>out. modify_data_fn dropf appendf file analysis = Payload out))"
proof -
  from json_path_Cons_Some[OF needed] obtain kvs tdc where
    a: "analysis = JDict kvs" and t: "map_of kvs ''transport_data_changes'' = Some tdc" and
    p1: "json_path tdc [''remove_orders'', ''needed''] = Some (JBool False)"
    by blast
  from json_path_Cons_Some[OF p1] obtain ts ro where
    td: "tdc = JDict ts" and r: "map_of ts ''remove_orders'' = Some ro" and
    p2: "json_path ro [''needed''] = Some (JBool False)"
    by blast
  from json_path_Cons_Some[OF p2] obtain rs where
    rd: "ro = JDict rs" and n: "map_of rs ''needed'' = Some (JBool False)"
    by auto
  have g1: "py_get analysis ''transport_data_changes'' (JDict []) = Inr (JDict ts)"
    using a t td by simp
  have g2: "py_get analysis ''new_orders'' (JList []) = Inr (JList [])"
    using a new by (auto split: option.splits)
  have g3: "py_get (JDict ts) ''remove_orders'' (JDict []) = Inr (JDict rs)"
    using r rd by simp
  have g4: "remove_orders_step dropf loaded (JDict rs) = Inr loaded"
    using n by (auto simp: remove_orders_step_def)
  have body: "modify_body dropf appendf file analysis =
    and_then (py_get (JDict ts) ''modify_service_times'' (JDict [])) (\<lambda>service_time_changes.
    and_then (needed_flag service_time_changes) (\<lambda>service_flag.
    and_then (py_get (JDict ts) ''modify_time_windows'' (JDict [])) (\<lambda>time_window_changes.
    and_then (needed_flag time_window_changes) (\<lambda>window_flag.
    and_then (py_get analysis ''fleet_changes'' (JDict [])) (\<lambda>fc.
    and_then (py_get analysis ''query_type'' (JStr ''route_optimization'')) (\<lambda>qt.
      Inr \<lparr> out_transport_data = loaded, out_fleet_changes = fc,
            out_query_type = qt \<rparr>))))))"
    unfolding modify_body_def by (simp add: load g1 g2 g3 g4 del: py_get.simps)
  have first: "\<forall>out. modify_data_fn dropf appendf file analysis = Payload out \<longrightarrow>
            out_transport_data out = loaded \<and> length (out_transport_data out) = length loaded"
    unfolding modify_data_fn_def body
    by (auto simp: and_then_eq_Inr split: sum.splits)
  have second: "\<exists>out. modify_data_fn dropf appendf file analysis = Payload out"
    if wf: "other_edits_are_dicts analysis"
  proof -
    have s1: "\<exists>d. py_get (JDict ts) ''modify_service_times'' (JDict []) = Inr (JDict d)"
      using wf a t td
      by (cases "map_of ts ''modify_service_times''")
        (auto simp: other_edits_are_dicts_def elim: absent_or_dict.elims)
    have s2: "\<exists>d. py_get (JDict ts) ''modify_time_windows'' (JDict []) = Inr (JDict d)"
      using wf a t td
      by (cases "map_of ts ''modify_time_windows''")
        (auto simp: other_edits_are_dicts_def elim: absent_or_dict.elims)
    from s1 s2 needed_flag_dict show ?thesis
      unfolding modify_data_fn_def body using a
      by (auto simp: needed_flag_def)
  qed
  from first second show ?thesis by blast
qed

lemma modify_default_analysis:
  "modify_data_fn dropf appendf CsvNotFound (create_default_analysis q) =
     Payload \<lparr> out_transport_data = default_transport_data,
       out_fleet_changes = the (json_path (create_default_analysis q) [''fleet_changes'']),
       out_query_type = JStr ''route_optimization'' \<rparr>"
  by (simp add: modify_data_fn_def modify_body_def load_transport_data_def
      create_default_analysis_def Let_def remove_orders_step_def needed_flag_def)

theorem modify_without_changes_witness:
  "(\<exists>out. modify_data_fn (drop_rows example_env) (append_rows example_env) CsvNotFound
            (create_default_analysis ''optimize the routes'') = Payload out
        \<and> length (out_transport_data out) = 9)"
proof -
  have n: "json_path (create_default_analysis ''optimize the routes'')
             [''transport_data_changes'', ''remove_orders'', ''needed''] = Some (JBool False)"
    by (simp add: create_default_analysis_def Let_def)
  have o: "json_path (create_default_analysis ''optimize the routes'') [''new_orders''] = None"
    by (simp add: create_default_analysis_def Let_def)
  have l: "load_transport_data CsvNotFound = Inr default_transport_data"
    by (simp add: load_transport_data_def)
  have w: "other_edits_are_dicts (create_default_analysis ''optimize the routes'')"
    by (simp add: other_edits_are_dicts_def create_default_analysis_def Let_def)
  from modify_without_changes [OF n disjI1 [OF o] l, of "drop_rows example_env"
      "append_rows example_env"] w
  show ?thesis
    by (auto simp: length_default_rows)
qed

section \<open>Properties of the Solver Gateway\<close>

text \<open>
  C6. With no API key, neither in the configuration nor in the environment, the gateway
  returns the error \<^verbatim>\<open>Error in CuOpt solver: No API key provided for NVIDIA CuOpt\<close>, whatever
  its input and the server are, and has sent no HTTP request. The text contains
  \<^verbatim>\<open>No API key provided\<close>.
\<close>

theorem solve_without_api_key:
  assumes "config_key = []" and "environ_key = None \<or> environ_key = Some []"
  shows "solve_fn str srv config_key environ_key input_data =
           Some (ErrorDict ''Error in CuOpt solver: No API key provided for NVIDIA CuOpt'', [])
       \<and> py_in_str ''No API key provided''
            ''Error in CuOpt solver: No API key provided for NVIDIA CuOpt''"
proof -
  from assms have "resolve_api_key config_key environ_key = []"
    by (auto simp: resolve_api_key_def)
  then have "solve_fn str srv config_key environ_key input_data =
           Some (ErrorDict ''Error in CuOpt solver: No API key provided for NVIDIA CuOpt'', [])"
    by (simp add: solve_fn_def solve_body_def)
  moreover have "py_in_str ''No API key provided''
            ''Error in CuOpt solver: No API key provided for NVIDIA CuOpt''"
    by simp
  ultimately show ?thesis by simp
qed

theorem solve_without_api_key_witness:
  "solve_fn (\<lambda>v. []) (\<lambda>sent. RequestRaised (OtherError ''offline'')) [] None
     (Bare (Payload example_problem)) =
   Some (ErrorDict ''Error in CuOpt solver: No API key provided for NVIDIA CuOpt'', [])"
  using solve_without_api_key [of "[]" None "\<lambda>v. []"
      "\<lambda>sent. RequestRaised (OtherError ''offline'')" "Bare (Payload example_problem)"]
  by simp

text \<open>
  C10. The check of the API key comes before the check of the error key. For an input that
  carries an error of an earlier stage: with an API key the gateway returns that error
  unchanged, and with none it returns the error of the missing key in its place; in both
  cases no HTTP request is sent.
\<close>

theorem solve_error_precedence:
  assumes "cuopt_input_of input_data = ErrorDict msg"
  shows "(resolve_api_key config_key environ_key \<noteq> [] \<longrightarrow>
            solve_fn str srv config_key environ_key input_data = Some (ErrorDict msg, []))
       \<and> (resolve_api_key config_key environ_key = [] \<longrightarrow>
            solve_fn str srv config_key environ_key input_data =
              Some (ErrorDict ''Error in CuOpt solver: No API key provided for NVIDIA CuOpt'', []))"
  using assms by (simp add: solve_fn_def solve_body_def)

theorem solve_error_precedence_witness:
  "solve_fn (\<lambda>v. []) (\<lambda>sent. RequestRaised (OtherError ''offline'')) ''key'' None
     (Bare (ErrorDict ''cuOpt preparation failed: Transport data is missing or empty'')) =
   Some (ErrorDict ''cuOpt preparation failed: Transport data is missing or empty'', [])
 \<and> solve_fn (\<lambda>v. []) (\<lambda>sent. RequestRaised (OtherError ''offline'')) [] None
     (Bare (ErrorDict ''cuOpt preparation failed: Transport data is missing or empty'')) =
   Some (ErrorDict ''Error in CuOpt solver: No API key provided for NVIDIA CuOpt'', [])"
  using solve_error_precedence
      [of "Bare (ErrorDict ''cuOpt preparation failed: Transport data is missing or empty'')"
        "''cuOpt preparation failed: Transport data is missing or empty''" "''key''" None
        "\<lambda>v. []" "\<lambda>sent. RequestRaised (OtherError ''offline'')"]
    solve_error_precedence
      [of "Bare (ErrorDict ''cuOpt preparation failed: Transport data is missing or empty'')"
        "''cuOpt preparation failed: Transport data is missing or empty''" "[]" None
        "\<lambda>v. []" "\<lambda>sent. RequestRaised (OtherError ''offline'')"]
  by (simp add: resolve_api_key_def)

lemma route_step_length:
  assumes "py_item entry ''type'' = Inr (JList types)"
    and "route_step str entry count loc = Inr step"
  shows "length step = length (filter (\<lambda>t. t \<noteq> JStr ''w'') (take 1 (drop count types)))"
proof (cases "count < length types")
  case True
  then have d: "drop count types = types ! count # drop (Suc count) types"
    by (simp add: Cons_nth_drop_Suc)
  from assms(2) True have
    "(if types ! count \<noteq> JStr ''w''
      then and_then (readable_label loc)
             (\<lambda>label. Inr [format_value str (types ! count) @ label])
      else Inr []) = Inr step"
    by (simp add: route_step_def assms(1))
  then have "length step = (if types ! count \<noteq> JStr ''w'' then 1 else 0)"
    by (auto simp: and_then_eq_Inr split: if_splits)
  with d show ?thesis by simp
next
  case False
  with assms(2) have "step = []"
    by (simp add: route_step_def assms(1))
  with False show ?thesis by simp
qed

lemma take_Suc_drop:
  "take (Suc n) (drop c ts) = take 1 (drop c ts) @ take n (drop (Suc c) ts)"
proof -
  have "take (1 + n) (drop c ts) = take 1 (drop c ts) @ take n (drop 1 (drop c ts))"
    by (rule take_add)
  then show ?thesis by simp
qed

lemma convert_route_length:
  assumes "py_item entry ''type'' = Inr (JList types)"
  shows "convert_route str entry count locs = Inr steps \<Longrightarrow>
         length steps =
           length (filter (\<lambda>t. t \<noteq> JStr ''w'') (take (length locs) (drop count types)))"
proof (induction locs arbitrary: count steps)
  case Nil
  then show ?case by simp
next
  case (Cons loc locs)
  from Cons.prems obtain step rest where
    s: "route_step str entry count loc = Inr step"
    and r: "convert_route str entry (count + 1) locs = Inr rest"
    and e: "steps = step @ rest"
    by (auto split: sum.splits)
  have "length steps = length step + length rest"
    using e by simp
  also have "\<dots> = length (filter (\<lambda>t. t \<noteq> JStr ''w'') (take 1 (drop count types)))
      + length (filter (\<lambda>t. t \<noteq> JStr ''w'') (take (length locs) (drop (Suc count) types)))"
    using route_step_length[OF assms s] Cons.IH[OF r] by simp
  also have "\<dots> = length (filter (\<lambda>t. t \<noteq> JStr ''w'')
      (take (Suc (length locs)) (drop count types)))"
    by (simp only: take_Suc_drop filter_append length_append)
  finally show ?case by simp
qed

lemma map_of_route_extend:
  "map_of (route_extend c v s) k =
     (if k = v then map_option (\<lambda>x. x @ s) (map_of c k) else map_of c k)"
  by (induction c) auto

lemma convert_vehicle_parts:
  assumes "convert_vehicle str vehicles u converted = Inr c1"
  shows "\<exists>entry route locs steps. py_subscript vehicles u = Inr entry
           \<and> py_item entry ''route'' = Inr route \<and> py_iter route = Inr locs
           \<and> convert_route str entry 0 locs = Inr steps
           \<and> c1 = route_extend
                    (if map_of converted u = None then converted @ [(u, [])] else converted)
                    u steps"
proof -
  from assms have h: "py_hashable u"
    by (auto simp: convert_vehicle_def route_has_def split: if_splits)
  from assms h have
    "and_then (py_subscript vehicles u) (\<lambda>vehicle_data.
     and_then (py_item vehicle_data ''route'') (\<lambda>route.
     and_then (py_iter route) (\<lambda>locs.
     and_then (convert_route str vehicle_data 0 locs) (\<lambda>steps.
       Inr (route_extend
              (if map_of converted u = None then converted @ [(u, [])] else converted)
              u steps))))) = Inr c1"
    by (simp add: convert_vehicle_def route_has_def)
  then show ?thesis
    unfolding and_then_eq_Inr by blast
qed

lemma convert_vehicle_other:
  assumes "convert_vehicle str vehicles u converted = Inr c1" and "k \<noteq> u"
  shows "map_of c1 k = map_of converted k"
proof -
  from convert_vehicle_parts[OF assms(1)] obtain steps where
    "c1 = route_extend
            (if map_of converted u = None then converted @ [(u, [])] else converted) u steps"
    by blast
  with assms(2) show ?thesis
    by (simp add: map_of_route_extend map_add_def split: option.splits)
qed

lemma convert_vehicle_self:
  assumes "convert_vehicle str vehicles k converted = Inr c1" and "map_of converted k = None"
  shows "\<exists>entry route locs steps. py_subscript vehicles k = Inr entry
           \<and> py_item entry ''route'' = Inr route \<and> py_iter route = Inr locs
           \<and> convert_route str entry 0 locs = Inr steps \<and> map_of c1 k = Some steps"
proof -
  from convert_vehicle_parts[OF assms(1)] obtain entry route locs steps where
    p: "py_subscript vehicles k = Inr entry" "py_item entry ''route'' = Inr route"
       "py_iter route = Inr locs" "convert_route str entry 0 locs = Inr steps"
    and c: "c1 = route_extend
            (if map_of converted k = None then converted @ [(k, [])] else converted) k steps"
    by blast
  from c assms(2) have "map_of c1 k = Some steps"
    by (simp add: map_of_route_extend map_add_def)
  with p show ?thesis by blast
qed

lemma convert_vehicles_other:
  "convert_vehicles str vehicles keys converted = Inr conv \<Longrightarrow> k \<notin> set keys \<Longrightarrow>
   map_of conv k = map_of converted k"
proof (induction keys arbitrary: converted)
  case Nil
  then show ?case by simp
next
  case (Cons u keys)
  from Cons.prems(1) obtain c1 where
    a: "convert_vehicle str vehicles u converted = Inr c1"
    and b: "convert_vehicles str vehicles keys c1 = Inr conv"
    by (auto split: sum.splits)
  from Cons.prems(2) have "k \<noteq> u" "k \<notin> set keys" by auto
  with convert_vehicle_other[OF a] Cons.IH[OF b] show ?case by simp
qed

lemma convert_vehicles_entry:
  "convert_vehicles str vehicles keys converted = Inr conv \<Longrightarrow> distinct keys \<Longrightarrow>
   k \<in> set keys \<Longrightarrow> map_of converted k = None \<Longrightarrow>
   \<exists>entry route locs steps. py_subscript vehicles k = Inr entry
      \<and> py_item entry ''route'' = Inr route \<and> py_iter route = Inr locs
      \<and> convert_route str entry 0 locs = Inr steps \<and> map_of conv k = Some steps"
proof (induction keys arbitrary: converted)
  case Nil
  then show ?case by simp
next
  case (Cons u keys)
  from Cons.prems(1) obtain c1 where
    a: "convert_vehicle str vehicles u converted = Inr c1"
    and b: "convert_vehicles str vehicles keys c1 = Inr conv"
    by (auto split: sum.splits)
  show ?case
  proof (cases "k = u")
    case True
    with Cons.prems(2) have "k \<notin> set keys" by simp
    from convert_vehicles_other[OF b this] have e: "map_of conv k = map_of c1 k" .
    from a True have a': "convert_vehicle str vehicles k converted = Inr c1" by simp
    from convert_vehicle_self[OF a' Cons.prems(4)] e show ?thesis by simp
  next
    case False
    with Cons.prems(2,3) have "k \<in> set keys" "distinct keys" by auto
    moreover from convert_vehicle_other[OF a False] Cons.prems(4) have "map_of c1 k = None"
      by simp
    ultimately show ?thesis using Cons.IH[OF b] by blast
  qed
qed

lemma normalize_solution_parts:
  assumes n: "normalize_solution str body = Inr (Payload (sol, raw))"
  shows "\<exists>kvs. vehicle_data sol =
             (case map_of kvs ''vehicle_data'' of Some x \<Rightarrow> x | None \<Rightarrow> JDict [])
         \<and> (case map_of kvs ''vehicle_data'' of
               None \<Rightarrow> Inr []
             | Some vs \<Rightarrow> and_then (py_iter vs) (\<lambda>keys. convert_vehicles str vs keys []))
             = Inr (readable_routes sol)"
proof -
  from n obtain b where b: "body = JDict b"
    by (cases body) (auto simp: normalize_solution_def split: if_splits)
  from n b obtain r where r: "map_of b ''response'' = Some r"
    by (cases "map_of b ''response''") (auto simp: normalize_solution_def)
  from n b r obtain rk where rk: "r = JDict rk"
    by (cases r) (auto simp: normalize_solution_def split: if_splits)
  from n b r rk obtain sr where sr: "map_of rk ''solver_response'' = Some sr"
    by (cases "map_of rk ''solver_response''") (auto simp: normalize_solution_def)
  from n b r rk sr obtain kvs where kvs: "sr = JDict kvs"
    by (cases sr) (auto simp: normalize_solution_def split: if_splits)
  show ?thesis
  proof (cases "map_of kvs ''vehicle_data''")
    case None
    with n b r rk sr kvs have "vehicle_data sol = JDict []" "readable_routes sol = []"
      by (auto simp: normalize_solution_def)
    with None show ?thesis
      by (intro exI[of _ kvs]) simp
  next
    case (Some vs)
    with n b r rk sr kvs have
      "\<exists>cr. and_then (py_iter vs) (\<lambda>keys. convert_vehicles str vs keys []) = Inr cr
          \<and> vehicle_data sol = vs \<and> readable_routes sol = cr"
      by (auto simp: normalize_solution_def and_then_eq_Inr)
    with Some show ?thesis
      by (intro exI[of _ kvs]) auto
  qed
qed

lemma json_path_entry:
  assumes "json_path (JDict kvs) [k, k'] = Some x"
  shows "\<exists>entry. map_of kvs k = Some entry \<and> py_item entry k' = Inr x"
proof -
  from assms obtain entry where e: "map_of kvs k = Some entry"
    and p: "json_path entry [k'] = Some x"
    by (auto split: option.splits)
  from p have "py_item entry k' = Inr x"
    by (cases entry) (auto split: option.splits)
  with e show ?thesis by blast
qed

lemma normalize_solution_routes:
  assumes n: "normalize_solution str body = Inr (Payload (sol, raw))"
    and vd: "vehicle_data sol = JDict vehicles"
    and d: "distinct (map fst vehicles)"
    and v: "map_of vehicles v = Some entry"
  shows "\<exists>route locs steps. py_item entry ''route'' = Inr route \<and> py_iter route = Inr locs
           \<and> convert_route str entry 0 locs = Inr steps
           \<and> map_of (readable_routes sol) (JStr v) = Some steps"
proof -
  from normalize_solution_parts[OF n] obtain kvs where
    g: "vehicle_data sol =
          (case map_of kvs ''vehicle_data'' of Some x \<Rightarrow> x | None \<Rightarrow> JDict [])"
    and r: "(case map_of kvs ''vehicle_data'' of
               None \<Rightarrow> Inr []
             | Some vs \<Rightarrow> and_then (py_iter vs) (\<lambda>keys. convert_vehicles str vs keys []))
             = Inr (readable_routes sol)"
    by blast
  from g vd v have m: "map_of kvs ''vehicle_data'' = Some (JDict vehicles)"
    by (auto split: option.splits)
  with r have
    cv: "convert_vehicles str (JDict vehicles) (map (\<lambda>kv. JStr (fst kv)) vehicles) []
           = Inr (readable_routes sol)"
    by simp
  from d have "distinct (map JStr (map fst vehicles))"
    by (simp add: distinct_map inj_on_def del: map_map)
  then have dk: "distinct (map (\<lambda>kv. JStr (fst kv)) vehicles)"
    by (simp add: comp_def)
  from v have "(v, entry) \<in> set vehicles" by (rule map_of_SomeD)
  then have mem: "JStr v \<in> set (map (\<lambda>kv. JStr (fst kv)) vehicles)" by force
  have none: "map_of ([] :: (json \<times> string list) list) (JStr v) = None" by simp
  from convert_vehicles_entry[OF cv dk mem none] obtain e' route locs steps where
    s: "py_subscript (JDict vehicles) (JStr v) = Inr e'"
    and rest: "py_item e' ''route'' = Inr route" "py_iter route = Inr locs"
      "convert_route str e' 0 locs = Inr steps"
      "map_of (readable_routes sol) (JStr v) = Some steps"
    by blast
  from s v have "e' = entry" by simp
  with rest show ?thesis by blast
qed

lemma solve_body_payload:
  assumes "solve_body str srv config_key environ_key input_data
             = Some (Inr (Payload (sol, raw)), sent)"
  shows "\<exists>body. normalize_solution str body = Inr (Payload (sol, raw))"
  using assms unfolding solve_body_def Let_def
  by (auto simp: and_then_eq_Inr
      split: if_splits stage_result.splits http_outcome.splits option.splits prod.splits)

lemma solve_fn_payload:
  assumes "solve_fn str srv config_key environ_key input_data = Some (Payload (sol, raw), sent)"
  shows "\<exists>body. normalize_solution str body = Inr (Payload (sol, raw))"
proof -
  from assms have
    "solve_body str srv config_key environ_key input_data = Some (Inr (Payload (sol, raw)), sent)"
    unfolding solve_fn_def by (auto split: option.splits prod.splits sum.splits)
  then show ?thesis by (rule solve_body_payload)
qed

text \<open>
  C3. In every solution record that the Solver Gateway returns, for every vehicle \<open>v\<close> of
  \<^verbatim>\<open>vehicle_data\<close> whose \<^verbatim>\<open>route\<close> and \<^verbatim>\<open>type\<close> are lists of the same length,
  \<^verbatim>\<open>readable_routes[v]\<close> exists and has as many entries as \<^verbatim>\<open>type\<close> has entries other than
  \<^verbatim>\<open>"w"\<close>: a wait step is skipped, every other step gives one entry. A dictionary holds
  each key once, which is the hypothesis on the keys of \<^verbatim>\<open>vehicle_data\<close>.
\<close>

theorem readable_routes_length:
  assumes "solve_fn str srv config_key environ_key input_data = Some (Payload (sol, raw), sent)"
    and "vehicle_data sol = JDict vehicles"
    and "distinct (map fst vehicles)"
    and "json_path (JDict vehicles) [v, ''route''] = Some (JList route)"
    and "json_path (JDict vehicles) [v, ''type''] = Some (JList types)"
    and "length route = length types"
  shows "\<exists>steps. map_of (readable_routes sol) (JStr v) = Some steps
           \<and> length steps = length (filter (\<lambda>t. t \<noteq> JStr ''w'') types)"
proof -
  from json_path_entry[OF assms(4)] obtain entry where
    e: "map_of vehicles v = Some entry" and r: "py_item entry ''route'' = Inr (JList route)"
    by blast
  from json_path_entry[OF assms(5)] e have t: "py_item entry ''type'' = Inr (JList types)"
    by auto
  from solve_fn_payload[OF assms(1)] obtain body where
    "normalize_solution str body = Inr (Payload (sol, raw))" by blast
  from normalize_solution_routes[OF this assms(2) assms(3) e] r obtain steps where
    c: "convert_route str entry 0 route = Inr steps"
    and m: "map_of (readable_routes sol) (JStr v) = Some steps"
    by auto
  from convert_route_length[OF t c] assms(6)
  have "length steps = length (filter (\<lambda>t. t \<noteq> JStr ''w'') types)" by simp
  with m show ?thesis by blast
qed

lemma example_server_first: "example_server [r] =
   Response \<lparr> status_code = 202, nvcf_reqid = Some ''request-1'',
                      json_body = Inl (JSONDecodeError ''Expecting value'') \<rparr>"
  by (simp add: example_server_def)

lemma poll_example:
  "poll example_server hs [r] \<lparr> status_code = 202, nvcf_reqid = Some ''request-1'',
                      json_body = b \<rparr> =
   Some (Inr \<lparr> status_code = 200, nvcf_reqid = None, json_body = Inr example_response \<rparr>,
         [r, GET (CUOPT_STATUS_URL @ ''request-1'') hs])"
  apply (subst poll.simps)
  apply (simp add: example_server_def)
  apply (subst poll.simps)
  apply simp
  done

lemma convert_example:
  "convert_vehicles (\<lambda>v. [])
     (JDict [(''0'', JDict
                [(''route'', JList [JInt 0, JInt 1, JInt 1, JInt 5, JInt 0]),
                 (''type'', JList [JStr ''Depot'', JStr ''Pickup'', JStr ''w'', JStr ''Delivery'',
                                   JStr ''Depot''])])])
     [JStr ''0''] [] =
   Inr [(JStr ''0'', [''Depot: Forklift'', ''Pickup: Insulation'', ''Delivery: Truck 1'',
                            ''Depot: Forklift''])]"
  by (simp add: convert_vehicle_def route_has_def route_step_def readable_at_def readable_map_def
      format_value_def)

lemma normalize_example:
  "normalize_solution (\<lambda>v. []) example_response =
     Inr (Payload
       (\<lparr> status = JInt 0, solution_cost = JInt 42,
           vehicle_data = JDict
             [(''0'', JDict
                [(''route'', JList [JInt 0, JInt 1, JInt 1, JInt 5, JInt 0]),
                 (''type'', JList [JStr ''Depot'', JStr ''Pickup'', JStr ''w'', JStr ''Delivery'',
                                   JStr ''Depot''])])],
           readable_routes =
             [(JStr ''0'', [''Depot: Forklift'', ''Pickup: Insulation'', ''Delivery: Truck 1'',
                            ''Depot: Forklift''])] \<rparr>,
        example_response))"
  by (simp add: normalize_solution_def example_response_def convert_example
      del: convert_vehicles.simps)

lemma solve_example:
  "solve_fn (\<lambda>v. []) example_server ''nvapi-key'' None (Bare (Payload example_problem)) =
     Some (Payload
       (\<lparr> status = JInt 0, solution_cost = JInt 42,
           vehicle_data = JDict
             [(''0'', JDict
                [(''route'', JList [JInt 0, JInt 1, JInt 1, JInt 5, JInt 0]),
                 (''type'', JList [JStr ''Depot'', JStr ''Pickup'', JStr ''w'', JStr ''Delivery'',
                                   JStr ''Depot''])])],
           readable_routes =
             [(JStr ''0'', [''Depot: Forklift'', ''Pickup: Insulation'', ''Delivery: Truck 1'',
                            ''Depot: Forklift''])] \<rparr>,
        example_response),
       [POST CUOPT_INVOKE_URL (request_headers ''nvapi-key'') ''cuOpt_OptimizedRouting''
          example_problem,
        GET (CUOPT_STATUS_URL @ ''request-1'') (request_headers ''nvapi-key'')])"
  by (simp add: solve_fn_def solve_body_def Let_def resolve_api_key_def example_server_first
      poll_example raise_for_status_def normalize_example)

theorem readable_routes_length_witness:
  "\<exists>sol raw sent steps.
      solve_fn (\<lambda>v. []) example_server ''nvapi-key'' None (Bare (Payload example_problem))
        = Some (Payload (sol, raw), sent)
    \<and> map_of (readable_routes sol) (JStr ''0'') = Some steps
    \<and> length steps = 4"
proof -
  let ?vehicles = "[(''0'', JDict
                [(''route'', JList [JInt 0, JInt 1, JInt 1, JInt 5, JInt 0]),
                 (''type'', JList [JStr ''Depot'', JStr ''Pickup'', JStr ''w'', JStr ''Delivery'',
                                   JStr ''Depot''])])]"
  from readable_routes_length[OF solve_example, of ?vehicles "''0''"
      "[JInt 0, JInt 1, JInt 1, JInt 5, JInt 0]"
      "[JStr ''Depot'', JStr ''Pickup'', JStr ''w'', JStr ''Delivery'', JStr ''Depot'']"]
  obtain steps where
    "map_of [(JStr ''0'', [''Depot: Forklift'', ''Pickup: Insulation'', ''Delivery: Truck 1'',
                            ''Depot: Forklift''])] (JStr ''0'') = Some steps"
    "length steps = 4"
    by auto
  with solve_example show ?thesis by simp
qed

section \<open>Properties of the Orchestrator\<close>

lemma prepare_missing_or_empty:
  assumes "transport_data input_data = None \<or> transport_data input_data = Some []"
  shows "prepare_fn input_data = ErrorDict missing_or_empty_error"
  using assms by (auto simp: prepare_fn_def prepare_body_def missing_or_empty_error_def)

lemma solve_error_dict:
  "solve_fn str srv config_key environ_key (Bare (ErrorDict msg)) =
     Some (ErrorDict (if resolve_api_key config_key environ_key = [] then no_api_key_error else msg), [])"
  by (simp add: solve_fn_def solve_body_def no_api_key_error_def)

lemma create_visualizations_keeps:
  "solution (create_visualizations env state) = solution state
   \<and> set (errors state) \<subseteq> set (errors (create_visualizations env state))"
  by (auto simp: create_visualizations_def split: option.splits)


lemma create_visualizations_errors:
  "errors (create_visualizations env state) = errors state
   \<or> (\<exists>e. errors (create_visualizations env state)
            = errors state @ [''Visualization failed: '' @ str_exn e])"
  by (auto simp: create_visualizations_def split: option.splits)

lemma process_query_after_prepare_error:
  assumes "prepare_fn (prepare_input_of (modify_data_fn (drop_rows env) (append_rows env)
             (order_file env) (analyze_fn (loads env) (llm_reply env) q))) = ErrorDict msg"
  shows "process_query env q =
     Some (if visualization_enabled env
           then create_visualizations env ((initial_state q) \<lparr> errors :=
                  [if resolve_api_key (cuopt_api_key env) (environ_api_key env) = []
                   then no_api_key_error else msg] \<rparr>)
           else (initial_state q) \<lparr> errors :=
                  [if resolve_api_key (cuopt_api_key env) (environ_api_key env) = []
                   then no_api_key_error else msg] \<rparr>, [])"
  unfolding process_query_def Let_def assms solve_error_dict
  by (simp add: initial_state_def)

text \<open>
  C4. When the body of the Data Modifier raises an exception, while loading or while
  transforming, its result is the single error dictionary
  \<^verbatim>\<open>{"error": "Data modification failed: ..."}\<close>. The Orchestrator does not stop on it. The
  Problem Builder runs on that dictionary, finds no \<^verbatim>\<open>transport_data\<close> in it and returns its
  own error about a missing order set; the Solver Gateway runs on that, sends no HTTP
  request and returns an error dictionary; the charts are made when they are switched on.
  The run ends with no solution; its list of errors holds the Problem Builder's message, or
  the message about the missing key when no API key is configured, and never the message of
  the Data Modifier.
\<close>

theorem modifier_error_runs_through:
  assumes "modify_body (drop_rows env) (append_rows env) (order_file env)
             (analyze_fn (loads env) (llm_reply env) q) = Inl e"
  shows "modify_data_fn (drop_rows env) (append_rows env) (order_file env)
             (analyze_fn (loads env) (llm_reply env) q)
           = ErrorDict (''Data modification failed: '' @ str_exn e)
       \<and> prepare_fn (prepare_input_of (ErrorDict (''Data modification failed: '' @ str_exn e)))
           = ErrorDict missing_or_empty_error
       \<and> solve_fn (str_of env) (solver_server env) (cuopt_api_key env)
                   (environ_api_key env) (Bare (ErrorDict missing_or_empty_error))
           = Some (ErrorDict
               (if resolve_api_key (cuopt_api_key env) (environ_api_key env) = []
                then no_api_key_error else missing_or_empty_error), [])
       \<and> (\<exists>final. process_query env q = Some (final, [])
             \<and> final =
                 (if visualization_enabled env
                  then create_visualizations env ((initial_state q) \<lparr> errors :=
                         [if resolve_api_key (cuopt_api_key env) (environ_api_key env) = []
                          then no_api_key_error else missing_or_empty_error] \<rparr>)
                  else (initial_state q) \<lparr> errors :=
                         [if resolve_api_key (cuopt_api_key env) (environ_api_key env) = []
                          then no_api_key_error else missing_or_empty_error] \<rparr>)
             \<and> solution final = None
             \<and> (if resolve_api_key (cuopt_api_key env) (environ_api_key env) = []
                 then no_api_key_error else missing_or_empty_error) \<in> set (errors final)
             \<and> (''Data modification failed: '' @ str_exn e) \<notin> set (errors final))"
proof -
  let ?m = "if resolve_api_key (cuopt_api_key env) (environ_api_key env) = []
            then no_api_key_error else missing_or_empty_error"
  let ?s = "(initial_state q) \<lparr> errors := [?m] \<rparr>"
  let ?final = "if visualization_enabled env then create_visualizations env ?s else ?s"
  have m: "modify_data_fn (drop_rows env) (append_rows env) (order_file env)
             (analyze_fn (loads env) (llm_reply env) q)
           = ErrorDict (''Data modification failed: '' @ str_exn e)"
    using assms by (simp add: modify_data_fn_def)
  have p: "prepare_fn (prepare_input_of (ErrorDict (''Data modification failed: '' @ str_exn e)))
           = ErrorDict missing_or_empty_error"
    by (simp add: prepare_missing_or_empty)
  have "prepare_fn (prepare_input_of (modify_data_fn (drop_rows env) (append_rows env)
             (order_file env) (analyze_fn (loads env) (llm_reply env) q)))
          = ErrorDict missing_or_empty_error"
    using m p by simp
  from process_query_after_prepare_error[OF this]
  have run: "process_query env q = Some (?final, [])" .
  have s: "solution ?s = None" "errors ?s = [?m]"
    by (simp_all add: initial_state_def)
  have sol: "solution ?final = None"
    using s create_visualizations_keeps[of env ?s] by auto
  have mem: "?m \<in> set (errors ?final)"
    using s create_visualizations_keeps[of env ?s] by auto
  have d: "''Data modification failed: '' @ str_exn e \<noteq> ?m"
    by (simp add: missing_or_empty_error_def no_api_key_error_def)
  have "errors ?final = [?m] \<or> (\<exists>x. errors ?final = [?m] @ [''Visualization failed: '' @ str_exn x])"
    using s create_visualizations_errors[of env ?s] by auto
  with d have lost: "(''Data modification failed: '' @ str_exn e) \<notin> set (errors ?final)"
    by auto
  from m p solve_error_dict[of "str_of env" "solver_server env" "cuopt_api_key env"
      "environ_api_key env" missing_or_empty_error] run sol mem lost
  show ?thesis by blast
qed


lemma modify_unreadable:
  "modify_body dropf appendf (CsvRaised (OtherError ''unreadable file'')) analysis
     = Inl (OtherError ''unreadable file'')"
  by (simp add: modify_body_def load_transport_data_def)

theorem modifier_error_runs_through_witness:
  "\<exists>final. process_query unreadable_file_env ''use 2 forklifts'' = Some (final, [])
     \<and> solution final = None \<and> errors final = [missing_or_empty_error]"
proof -
  have b: "modify_body (drop_rows unreadable_file_env) (append_rows unreadable_file_env)
          (order_file unreadable_file_env)
          (analyze_fn (loads unreadable_file_env) (llm_reply unreadable_file_env) ''use 2 forklifts'')
        = Inl (OtherError ''unreadable file'')"
    by (simp add: unreadable_file_env_def example_env_def modify_unreadable)
  have k: "resolve_api_key (cuopt_api_key unreadable_file_env) (environ_api_key unreadable_file_env)
             \<noteq> []"
    by (simp add: unreadable_file_env_def example_env_def resolve_api_key_def)
  have v: "\<not> visualization_enabled unreadable_file_env"
    by (simp add: unreadable_file_env_def example_env_def)
  from modifier_error_runs_through[OF b] k v show ?thesis
    by (auto simp: initial_state_def)
qed

text \<open>
  With an order file that cannot be read and the charts switched on, the Data Modifier
  returns its error dictionary, yet the run goes through every later stage: the final list
  of errors holds the Problem Builder's message only, no message in it is the Data
  Modifier's, and the charts stage has logged its success and set its time stamp.
\<close>

theorem modifier_error_not_recorded:
  "modify_data_fn (drop_rows unreadable_file_charts_env) (append_rows unreadable_file_charts_env)
      (order_file unreadable_file_charts_env)
      (analyze_fn (loads unreadable_file_charts_env) (llm_reply unreadable_file_charts_env)
         ''use 2 forklifts'')
    = ErrorDict ''Data modification failed: unreadable file''
   \<and> (\<exists>final. process_query unreadable_file_charts_env ''use 2 forklifts'' = Some (final, [])
        \<and> errors final = [missing_or_empty_error]
        \<and> ''Data modification failed: unreadable file'' \<notin> set (errors final)
        \<and> filter (py_in_str ''Data modification failed'') (errors final) = []
        \<and> logs final = [''Visualizations created successfully'']
        \<and> visualization_timestamp final = Some ''20240101_000000'')"
proof -
  let ?E = unreadable_file_charts_env
  have b: "modify_body (drop_rows ?E) (append_rows ?E) (order_file ?E)
          (analyze_fn (loads ?E) (llm_reply ?E) ''use 2 forklifts'')
        = Inl (OtherError ''unreadable file'')"
    by (simp add: unreadable_file_charts_env_def unreadable_file_env_def example_env_def
        modify_unreadable)
  then have m: "modify_data_fn (drop_rows ?E) (append_rows ?E) (order_file ?E)
      (analyze_fn (loads ?E) (llm_reply ?E) ''use 2 forklifts'')
    = ErrorDict ''Data modification failed: unreadable file''"
    by (simp add: modify_data_fn_def)
  then have "prepare_fn (prepare_input_of (modify_data_fn (drop_rows ?E) (append_rows ?E)
      (order_file ?E) (analyze_fn (loads ?E) (llm_reply ?E) ''use 2 forklifts'')))
    = ErrorDict missing_or_empty_error"
    by (simp add: prepare_missing_or_empty)
  from process_query_after_prepare_error[OF this]
  have run: "process_query ?E ''use 2 forklifts'' =
     Some (create_visualizations ?E ((initial_state ''use 2 forklifts'')
             \<lparr> errors := [missing_or_empty_error] \<rparr>), [])"
    by (simp add: unreadable_file_charts_env_def unreadable_file_env_def example_env_def
        resolve_api_key_def)
  have c: "create_visualizations ?E ((initial_state ''use 2 forklifts'')
             \<lparr> errors := [missing_or_empty_error] \<rparr>)
         = (initial_state ''use 2 forklifts'')
             \<lparr> errors := [missing_or_empty_error],
               logs := [''Visualizations created successfully''],
               visualization_timestamp := Some ''20240101_000000'' \<rparr>"
    by (simp add: create_visualizations_def unreadable_file_charts_env_def unreadable_file_env_def
        example_env_def initial_state_def)
  have n: "\<not> py_in_str ''Data modification failed'' missing_or_empty_error"
    by (simp add: missing_or_empty_error_def)
  have d: "''Data modification failed: unreadable file'' \<noteq> missing_or_empty_error"
    by (simp add: missing_or_empty_error_def)
  from m run c n d show ?thesis by (simp add: initial_state_def)
qed





end
